theory Spec2Isabelle
  imports Complex_Main "HOL-Library.Multiset" "HOL-Library.AList" "HOL-Library.List_Lexorder"
    "HOL-Library.Sublist"
begin

section \<open>Data model: frames, columns, errors\<close>

text \<open>
  The ensemble of \<^verbatim>\<open>dmc/ensemble.py\<close> works on pandas data frames. A frame is modelled
  column-major, as pandas stores it: a row index (a list of integer labels) and a list of
  named, typed columns, each holding one cell per row. A cell is a missing value
  (\<open>NaN\<close>), a number, a string or a boolean. Floating-point numbers are idealised as
  rationals: the properties below are about which rows and which weights enter a
  computation, not about rounding.
\<close>

datatype cell = NaN | Num rat | Str string | Bl bool

datatype dtype = Float64 | Int64 | Object | Boolean

record column =
  cname :: string
  dtype :: dtype
  vals :: "cell list"

record frame =
  index :: "int list"
  cols :: "column list"

text \<open>
  Exceptions are values. \<open>Raised\<close> stands for any other exception derived from
  Python's \<^verbatim>\<open>Exception\<close> that an external collaborator raises; \<open>BaseRaised\<close> for one
  that derives from \<^verbatim>\<open>BaseException\<close> only (\<^verbatim>\<open>KeyboardInterrupt\<close>,
  \<^verbatim>\<open>SystemExit\<close>), which \<^verbatim>\<open>except Exception\<close> does not catch.
\<close>

datatype error =
    KeyError string
  | ValueError string
  | AttributeError string
  | Raised string
  | BaseRaised string

fun is_Exception :: "error \<Rightarrow> bool" where
  "is_Exception (BaseRaised _) = False"
| "is_Exception _ = True"

definition len :: "frame \<Rightarrow> nat" where
  "len f = length (index f)"

definition columns :: "frame \<Rightarrow> string list" where
  "columns f = map cname (cols f)"


text \<open>\<^verbatim>\<open>frame[c]\<close>: the column labelled \<open>c\<close>, or \<^verbatim>\<open>KeyError\<close>.\<close>

definition getitem :: "frame \<Rightarrow> string \<Rightarrow> error + column" where
  "getitem f c =
     (case find (\<lambda>col. cname col = c) (cols f) of
        None \<Rightarrow> Inl (KeyError c)
      | Some col \<Rightarrow> Inr col)"

text \<open>\<^verbatim>\<open>frame[columns]\<close>: the sub-frame of the listed columns, in the listed order.\<close>

fun getitems :: "frame \<Rightarrow> string list \<Rightarrow> error + column list" where
  "getitems f [] = Inr []"
| "getitems f (c # cs) =
     (case getitem f c of
        Inl e \<Rightarrow> Inl e
      | Inr col \<Rightarrow> (case getitems f cs of Inl e \<Rightarrow> Inl e | Inr rest \<Rightarrow> Inr (col # rest)))"

text \<open>
  \<^verbatim>\<open>frame.drop(labels, axis=1)\<close>: every label must be a column of the frame, else
  \<^verbatim>\<open>KeyError\<close>; a label listed twice is dropped once.
\<close>

definition drop_columns :: "frame \<Rightarrow> string list \<Rightarrow> error + frame" where
  "drop_columns f labels =
     (case find (\<lambda>l. l \<notin> set (columns f)) labels of
        Some l \<Rightarrow> Inl (KeyError l)
      | None \<Rightarrow> Inr (f\<lparr>cols := filter (\<lambda>c. cname c \<notin> set labels) (cols f)\<rparr>))"

section \<open>Knownness detector\<close>

text \<open>
  \<^verbatim>\<open>column.isin(values)\<close>: one boolean per cell of the column, true where the cell
  is among \<open>values\<close>. pandas compares cells by value and treats a missing value as a value
  like any other here: a \<open>NaN\<close> cell is found when \<open>values\<close> holds a \<open>NaN\<close>. The
  structural equality of \<^typ>\<open>cell\<close> says the same.
\<close>

definition isin :: "column \<Rightarrow> cell list \<Rightarrow> cell list" where
  "isin col values = map (\<lambda>v. Bl (v \<in> set values)) (vals col)"

text \<open>
  \<^verbatim>\<open>test[columns].copy().apply(lambda column: column.isin(train[column.name]))\<close>:
  the selection from the test frame comes first and fails on a missing column; then each
  selected column is looked up in the training frame.
\<close>

fun apply_isin :: "frame \<Rightarrow> column list \<Rightarrow> error + column list" where
  "apply_isin train [] = Inr []"
| "apply_isin train (col # rest) =
     (case getitem train (cname col) of
        Inl e \<Rightarrow> Inl e
      | Inr tc \<Rightarrow>
          (case apply_isin train rest of
             Inl e \<Rightarrow> Inl e
           | Inr ks \<Rightarrow> Inr (\<lparr>cname = cname col, dtype = Boolean, vals = isin col (vals tc)\<rparr> # ks)))"

definition add_recognition_vector :: "frame \<Rightarrow> frame \<Rightarrow> string list \<Rightarrow> error + frame" where
  "add_recognition_vector train test cs =
     (case getitems test cs of
        Inl e \<Rightarrow> Inl e
      | Inr sel \<Rightarrow>
          (case apply_isin train sel of
             Inl e \<Rightarrow> Inl e
           | Inr known \<Rightarrow>
               Inr \<lparr>index = index test,
                    cols = map (\<lambda>(c, k). k\<lparr>cname := ''known_'' @ c\<rparr>) (zip cs known)\<rparr>))"

section \<open>Partitioner\<close>

definition potentially_unknown :: "string list" where
  "potentially_unknown = [''articleID'', ''customerID'', ''voucherID'', ''productGroup'']"

text \<open>
  \<^verbatim>\<open>pd.concat([test, known_mask], axis=1)\<close> of two frames over the same index puts
  the columns side by side.
\<close>

definition concat_axis1 :: "frame \<Rightarrow> frame \<Rightarrow> frame" where
  "concat_axis1 a b = a\<lparr>cols := cols a @ cols b\<rparr>"

text \<open>
  \<^verbatim>\<open>test.groupby(splitters)\<close>. The grouping columns are the boolean mask columns;
  each row's group key is the tuple of its mask values. pandas yields one group per
  observed key, the keys in ascending order (\<open>False < True\<close>, tuples compared
  lexicographically), and keeps the rows of a group in their original order. Grouping by
  a label that is not the label of exactly one column fails.
\<close>

fun truth :: "cell \<Rightarrow> bool" where
  "truth (Bl b) = b"
| "truth _ = False"

definition row_keys :: "nat \<Rightarrow> column list \<Rightarrow> bool list list" where
  "row_keys n bys = foldr (\<lambda>col acc. map2 (#) (map truth (vals col)) acc) bys (replicate n [])"

definition select :: "'k list \<Rightarrow> 'k \<Rightarrow> 'a list \<Rightarrow> 'a list" where
  "select ks k xs = map snd (filter (\<lambda>p. fst p = k) (zip ks xs))"

definition select_rows :: "'k list \<Rightarrow> 'k \<Rightarrow> frame \<Rightarrow> frame" where
  "select_rows ks k f =
     \<lparr>index = select ks k (index f),
      cols = map (\<lambda>c. c\<lparr>vals := select ks k (vals c)\<rparr>) (cols f)\<rparr>"

definition groupby :: "frame \<Rightarrow> string list \<Rightarrow> error + (bool list \<times> frame) list" where
  "groupby f bys =
     (case find (\<lambda>l. length (filter (\<lambda>c. c = l) (columns f)) \<noteq> 1) bys of
        Some l \<Rightarrow> (if l \<in> set (columns f) then Inl (ValueError l) else Inl (KeyError l))
      | None \<Rightarrow>
          (case getitems f bys of
             Inl e \<Rightarrow> Inl e
           | Inr bycols \<Rightarrow>
               (let ks = row_keys (len f) bycols
                in Inr (map (\<lambda>k. (k, select_rows ks k f)) (sort (remdups ks))))))"

text \<open>The record \<^verbatim>\<open>{'train': ..., 'test': ..., 'name': ...}\<close> stored per key.\<close>

record partition =
  train :: frame
  test :: frame
  name :: string

definition key_of :: "bool list \<Rightarrow> string" where
  "key_of msk = map (\<lambda>(known, col). if known then CHR ''k'' else CHR ''u'') (zip msk potentially_unknown)"

definition specifier_of :: "bool list \<Rightarrow> string" where
  "specifier_of msk =
     concat (map (\<lambda>(known, col). if known then ''k'' @ col else ''u'' @ col) (zip msk potentially_unknown))"

definition unknown_columns :: "bool list \<Rightarrow> string list" where
  "unknown_columns msk = map snd (filter (\<lambda>(known, col). \<not> known) (zip msk potentially_unknown))"

definition nan_columns :: "frame \<Rightarrow> string list" where
  "nan_columns grp =
     map cname (filter (\<lambda>c. cname c \<noteq> ''returnQuantity'' \<and> dtype c = Float64 \<and> NaN \<in> set (vals c))
                       (cols grp))"

text \<open>
  The loop body of \<^verbatim>\<open>split\<close> for one group, and the loop: \<^verbatim>\<open>result[key] = ...\<close>
  on an ordered dictionary is \<^const>\<open>AList.update\<close>.
\<close>

definition split_group ::
  "frame \<Rightarrow> string list \<Rightarrow> bool list \<times> frame \<Rightarrow> error + (string \<times> partition)" where
  "split_group tr splitters g =
     (let msk = fst g; grp = snd g;
          dropped = unknown_columns msk @ nan_columns grp
      in case drop_columns tr dropped of
           Inl e \<Rightarrow> Inl e
         | Inr train_crop \<Rightarrow>
             (case drop_columns grp (dropped @ splitters) of
                Inl e \<Rightarrow> Inl e
              | Inr test_group \<Rightarrow>
                  Inr (key_of msk, \<lparr>train = train_crop, test = test_group, name = specifier_of msk\<rparr>)))"

fun split_loop ::
  "frame \<Rightarrow> string list \<Rightarrow> (bool list \<times> frame) list \<Rightarrow> (string \<times> partition) list
     \<Rightarrow> error + (string \<times> partition) list" where
  "split_loop tr splitters [] result = Inr result"
| "split_loop tr splitters (g # gs) result =
     (case split_group tr splitters g of
        Inl e \<Rightarrow> Inl e
      | Inr (key, p) \<Rightarrow> split_loop tr splitters gs (AList.update key p result))"

definition split :: "frame \<Rightarrow> frame \<Rightarrow> error + (string \<times> partition) list" where
  "split tr te =
     (case add_recognition_vector tr te potentially_unknown of
        Inl e \<Rightarrow> Inl e
      | Inr known_mask \<Rightarrow>
          (let te2 = concat_axis1 te known_mask;
               splitters = columns known_mask
           in case groupby te2 splitters of
                Inl e \<Rightarrow> Inl e
              | Inr groups \<Rightarrow> split_loop tr splitters groups []))"

section \<open>Partition configurator and the ensemble object\<close>

text \<open>
  The external collaborators. A trained classifier is callable on features and may expose
  \<^verbatim>\<open>predict_proba\<close> (\<open>None\<close> when the attribute is absent); a factory trains one
  from features and targets. Rows of a feature matrix are of an arbitrary type \<open>'x\<close>.
\<close>

record 'x clf =
  call :: "'x list \<Rightarrow> error + cell list"
  predict_proba :: "('x list \<Rightarrow> error + rat list list) option"

type_synonym 'x factory = "'x list \<Rightarrow> cell list \<Rightarrow> error + 'x clf"

text \<open>One entry of \<^verbatim>\<open>params\<close>, with the four keys of the constructor's template.\<close>

record ('x, 'sc) config =
  cfg_sample :: "int option"
  cfg_scaler :: "'sc option"
  cfg_ignore_features :: "string list option"
  cfg_classifier :: "'x factory"

text \<open>
  \<^verbatim>\<open>{**self.splits[k], **params[k]}\<close>: the partition record with the configuration
  keys added.
\<close>

record ('x, 'sc) splinter = partition +
  sample :: "int option"
  scaler :: "'sc option"
  ignore_features :: "string list option"
  classifier :: "'x factory"

definition merge :: "partition \<Rightarrow> ('x, 'sc) config \<Rightarrow> ('x, 'sc) splinter" where
  "merge p cfg =
     \<lparr>train = train p, test = test p, name = name p,
      sample = cfg_sample cfg, scaler = cfg_scaler cfg,
      ignore_features = cfg_ignore_features cfg, classifier = cfg_classifier cfg\<rparr>"

text \<open>
  \<^verbatim>\<open>_enrich_splits\<close>: \<^verbatim>\<open>params[k]\<close> raises \<^verbatim>\<open>KeyError\<close> on a missing key; the
  exception leaves the constructor, so no ensemble exists afterwards.
\<close>

fun enrich_splits ::
  "(string \<times> partition) list \<Rightarrow> (string \<rightharpoonup> ('x, 'sc) config)
     \<Rightarrow> error + (string \<times> ('x, 'sc) splinter) list" where
  "enrich_splits [] params = Inr []"
| "enrich_splits ((k, p) # rest) params =
     (case params k of
        None \<Rightarrow> Inl (KeyError k)
      | Some cfg \<Rightarrow>
          (case enrich_splits rest params of
             Inl e \<Rightarrow> Inl e
           | Inr done \<Rightarrow> Inr ((k, merge p cfg) # done)))"

text \<open>
  The ensemble object. \<^verbatim>\<open>self.test = test\<close> stores a reference to the caller's frame,
  not a copy, so frames that are shared live in a store and the ensemble holds the address.
  The type of the per-partition records changes with the stage of the lifecycle.
\<close>

type_synonym ref = nat

type_synonym heap = "ref \<Rightarrow> frame"

record 's ensemble =
  test_size :: nat
  self_test :: ref
  splits :: "(string \<times> 's) list"

definition init ::
  "heap \<Rightarrow> frame \<Rightarrow> ref \<Rightarrow> (string \<rightharpoonup> ('x, 'sc) config)
     \<Rightarrow> error + ('x, 'sc) splinter ensemble" where
  "init h tr r params =
     (case split tr (h r) of
        Inl e \<Rightarrow> Inl e
      | Inr parts \<Rightarrow>
          (case enrich_splits parts params of
             Inl e \<Rightarrow> Inl e
           | Inr enriched \<Rightarrow> Inr \<lparr>test_size = len (h r), self_test = r, splits = enriched\<rparr>))"

section \<open>Partition transformer\<close>

text \<open>
  \<^verbatim>\<open>series.reindex(labels)\<close>, for one column of values over an index: unchanged when the
  labels are the index itself; looked up by label when the index is unique, a label that
  is not in the index giving a missing value; an error when the index has duplicates.
\<close>

definition reindex_vals :: "int list \<Rightarrow> int list \<Rightarrow> cell list \<Rightarrow> cell list" where
  "reindex_vals idx labels vs =
     map (\<lambda>l. case map_of (zip idx vs) l of Some v \<Rightarrow> v | None \<Rightarrow> NaN) labels"

fun upcast :: "dtype \<Rightarrow> dtype" where
  "upcast Int64 = Float64"
| "upcast Boolean = Object"
| "upcast d = d"

definition reindex :: "frame \<Rightarrow> int list \<Rightarrow> error + frame" where
  "reindex f labels =
     (if labels = index f then Inr f
      else if distinct (index f) then
        Inr \<lparr>index = labels,
             cols = map (\<lambda>c. c\<lparr>dtype := (if set labels \<subseteq> set (index f) then dtype c else upcast (dtype c)),
                                vals := reindex_vals (index f) labels (vals c)\<rparr>) (cols f)\<rparr>
      else Inl (ValueError ''cannot reindex on an axis with duplicate labels''))"

text \<open>Python's \<^verbatim>\<open>xs[:k]\<close>: a negative \<open>k\<close> counts from the end.\<close>

definition slice_to :: "int \<Rightarrow> 'a list \<Rightarrow> 'a list" where
  "slice_to k xs = (if 0 \<le> k then take (nat k) xs else take (nat (int (length xs) + k)) xs)"

definition rows_to :: "int \<Rightarrow> frame \<Rightarrow> frame" where
  "rows_to k f = \<lparr>index = slice_to k (index f), cols = map (\<lambda>c. c\<lparr>vals := slice_to k (vals c)\<rparr>) (cols f)\<rparr>"

text \<open>
  \<^verbatim>\<open>_subsample\<close>. The random source \<^verbatim>\<open>np.random.permutation\<close> is a parameter
  \<open>perm\<close>; what it returns for an index is a rearrangement of that index.
\<close>

definition subsample :: "(int list \<Rightarrow> int list) \<Rightarrow> frame \<Rightarrow> int \<Rightarrow> error + frame" where
  "subsample perm tr sz =
     (let size' = min (int (len tr)) sz
      in case reindex tr (perm (index tr)) of
           Inl e \<Rightarrow> Inl e
         | Inr shuffled \<Rightarrow> Inr (rows_to size' shuffled))"

text \<open>
  \<^verbatim>\<open>pd.DataFrame(frame, index=frame.index, columns=names)\<close>: the listed columns in the
  listed order, a column the frame lacks being all missing values.
\<close>

definition col_or_nan :: "frame \<Rightarrow> string \<Rightarrow> column" where
  "col_or_nan f c =
     (case find (\<lambda>col. cname col = c) (cols f) of
        Some col \<Rightarrow> col
      | None \<Rightarrow> \<lparr>cname = c, dtype = Float64, vals = replicate (len f) NaN\<rparr>)"

definition with_columns :: "frame \<Rightarrow> string list \<Rightarrow> frame" where
  "with_columns f names = \<lparr>index = index f, cols = map (col_or_nan f) names\<rparr>"

definition transform_target_frame :: "frame \<Rightarrow> frame" where
  "transform_target_frame te = with_columns te [''returnQuantity'']"

text \<open>
  \<^verbatim>\<open>pd.concat([a, b])\<close>: the rows of \<open>b\<close> under the rows of \<open>a\<close>, over the union
  of the columns; a frame that lacks a column contributes missing values.
\<close>

fun common_dtype :: "dtype \<Rightarrow> dtype \<Rightarrow> dtype" where
  "common_dtype Float64 Int64 = Float64"
| "common_dtype Int64 Float64 = Float64"
| "common_dtype a b = (if a = b then a else Object)"

definition concat_rows :: "frame \<Rightarrow> frame \<Rightarrow> frame" where
  "concat_rows a b =
     \<lparr>index = index a @ index b,
      cols = map (\<lambda>c. \<lparr>cname = c,
                        dtype = common_dtype (dtype (col_or_nan a c)) (dtype (col_or_nan b c)),
                        vals = vals (col_or_nan a c) @ vals (col_or_nan b c)\<rparr>)
                 (columns a @ filter (\<lambda>c. c \<notin> set (columns a)) (columns b))\<rparr>"

text \<open>
  The external feature transformer \<^verbatim>\<open>dmc.transformation.transform\<close> is a parameter:
  from a frame, the binary-target flag, a scaler and an ignore list it returns a feature
  matrix and a target vector, or raises.
\<close>

type_synonym ('x, 'sc) transformer =
  "frame \<Rightarrow> bool \<Rightarrow> 'sc option \<Rightarrow> string list option \<Rightarrow> error + ('x list \<times> cell list)"

text \<open>The per-partition record after \<^verbatim>\<open>_transform_split\<close>.\<close>

record ('x, 'sc) transformed =
  train_xy :: "'x list \<times> cell list"
  test_xy :: "'x list \<times> cell list"
  target :: frame
  name_t :: string
  sample_t :: "int option"
  scaler_t :: "'sc option"
  ignore_features_t :: "string list option"
  classifier_t :: "'x factory"

text \<open>\<^verbatim>\<open>if splinter['sample']:\<close> is Python truthiness: false for \<^verbatim>\<open>None\<close> and for 0.\<close>

definition truthy :: "int option \<Rightarrow> bool" where
  "truthy s = (case s of None \<Rightarrow> False | Some n \<Rightarrow> n \<noteq> 0)"

text \<open>Lines 96 and 97: the training frame that enters the concatenation.\<close>

definition sampled_train ::
  "(int list \<Rightarrow> int list) \<Rightarrow> ('x, 'sc) splinter \<Rightarrow> error + frame" where
  "sampled_train perm sp =
     (if truthy (sample sp) then subsample perm (train sp) (the (sample sp)) else Inr (train sp))"

definition transform_split ::
  "(int list \<Rightarrow> int list) \<Rightarrow> ('x, 'sc) transformer \<Rightarrow> ('x, 'sc) splinter
     \<Rightarrow> error + ('x, 'sc) transformed" where
  "transform_split perm transform sp =
     (case sampled_train perm sp of
        Inl e \<Rightarrow> Inl e
      | Inr tr \<Rightarrow>
          (let offset = len tr;
               data = concat_rows tr (test sp)
           in case transform data True (scaler sp) (ignore_features sp) of
                Inl e \<Rightarrow> Inl e
              | Inr (X, Y) \<Rightarrow>
                  Inr \<lparr>train_xy = (take offset X, take offset Y),
                       test_xy = (drop offset X, drop offset Y),
                       target = transform_target_frame (test sp),
                       name_t = name sp, sample_t = sample sp, scaler_t = scaler sp,
                       ignore_features_t = ignore_features sp,
                       classifier_t = classifier sp\<rparr>))"

text \<open>A loop that replaces every value of the ordered dictionary, stopping at the first error.\<close>

fun map_splits :: "('s \<Rightarrow> error + 't) \<Rightarrow> (string \<times> 's) list \<Rightarrow> error + (string \<times> 't) list" where
  "map_splits f [] = Inr []"
| "map_splits f ((k, s) # rest) =
     (case f s of
        Inl e \<Rightarrow> Inl e
      | Inr t \<Rightarrow> (case map_splits f rest of Inl e \<Rightarrow> Inl e | Inr done \<Rightarrow> Inr ((k, t) # done)))"

definition transform_all ::
  "(int list \<Rightarrow> int list) \<Rightarrow> ('x, 'sc) transformer \<Rightarrow> ('x, 'sc) splinter ensemble
     \<Rightarrow> error + ('x, 'sc) transformed ensemble" where
  "transform_all perm transform self =
     (case map_splits (transform_split perm transform) (splits self) of
        Inl e \<Rightarrow> Inl e
      | Inr done \<Rightarrow> Inr \<lparr>test_size = test_size self, self_test = self_test self, splits = done\<rparr>)"

section \<open>Partition classifier\<close>

text \<open>What the run prints: the report lines and the log line of the confidence fallback.\<close>

datatype out =
    PrecisionLine string rat nat
  | OverallLine rat
  | NoLabelsLine
  | NoProbaLine error

text \<open>
  A numpy value assigned to a column is a scalar, which fills every row, or an array, whose
  length must be the frame's row count.
\<close>

datatype 'a nd = Scalar 'a | Array "'a list"

fun infer_dtype :: "cell list \<Rightarrow> dtype" where
  "infer_dtype vs =
     (if list_all (\<lambda>v. case v of Bl _ \<Rightarrow> True | _ \<Rightarrow> False) vs \<and> vs \<noteq> [] then Boolean
      else if list_all (\<lambda>v. case v of Num _ \<Rightarrow> True | NaN \<Rightarrow> True | _ \<Rightarrow> False) vs then Float64
      else Object)"

text \<open>\<^verbatim>\<open>frame[c] = values\<close>: replaces the column in place, or appends a new one.\<close>

definition put_column :: "frame \<Rightarrow> column \<Rightarrow> frame" where
  "put_column f col =
     (if cname col \<in> set (columns f)
      then f\<lparr>cols := map (\<lambda>c. if cname c = cname col then col else c) (cols f)\<rparr>
      else f\<lparr>cols := cols f @ [col]\<rparr>)"

definition setitem :: "frame \<Rightarrow> string \<Rightarrow> cell nd \<Rightarrow> error + frame" where
  "setitem f c v =
     (case v of
        Scalar x \<Rightarrow>
          Inr (put_column f \<lparr>cname = c, dtype = infer_dtype [x], vals = replicate (len f) x\<rparr>)
      | Array xs \<Rightarrow>
          (if length xs = len f
           then Inr (put_column f \<lparr>cname = c, dtype = infer_dtype xs, vals = xs\<rparr>)
           else Inl (ValueError ''Length of values does not match length of index'')))"

text \<open>\<^verbatim>\<open>np.max(probs, 1)\<close>: the maximum of every row; a row without entries is an error.\<close>

definition np_max_axis1 :: "rat list list \<Rightarrow> error + rat list" where
  "np_max_axis1 probs =
     (if list_ex (\<lambda>row. row = []) probs
      then Inl (ValueError ''zero-size array to reduction operation maximum'')
      else Inr (map (\<lambda>row. fold max (tl row) (hd row)) probs))"

text \<open>\<^verbatim>\<open>np.squeeze\<close> of a vector: a vector of one entry becomes a scalar.\<close>

definition np_squeeze :: "'a list \<Rightarrow> 'a nd" where
  "np_squeeze xs = (case xs of [x] \<Rightarrow> Scalar x | _ \<Rightarrow> Array xs)"

fun map_nd :: "('a \<Rightarrow> 'b) \<Rightarrow> 'a nd \<Rightarrow> 'b nd" where
  "map_nd f (Scalar x) = Scalar (f x)"
| "map_nd f (Array xs) = Array (map f xs)"

text \<open>The body of the \<^verbatim>\<open>try\<close> block of \<^verbatim>\<open>_classify_split\<close>.\<close>

definition try_confidence :: "'x clf \<Rightarrow> 'x list \<Rightarrow> frame \<Rightarrow> error + frame" where
  "try_confidence c X tgt =
     (case predict_proba c of
        None \<Rightarrow> Inl (AttributeError ''predict_proba'')
      | Some proba \<Rightarrow>
          (case proba X of
             Inl e \<Rightarrow> Inl e
           | Inr probs \<Rightarrow>
               (case np_max_axis1 probs of
                  Inl e \<Rightarrow> Inl e
                | Inr m \<Rightarrow> setitem tgt ''confidence'' (map_nd Num (np_squeeze m)))))"

text \<open>
  \<^verbatim>\<open>_classify_split\<close>. The result is what was printed and either the exception that
  left the function or the updated record. \<^verbatim>\<open>except Exception\<close> catches what
  \<^const>\<open>is_Exception\<close> holds of.
\<close>

definition classify_split ::
  "('x, 'sc) transformed \<Rightarrow> out list \<times> (error + ('x, 'sc) transformed)" where
  "classify_split sp =
     (case classifier_t sp (fst (train_xy sp)) (snd (train_xy sp)) of
        Inl e \<Rightarrow> ([], Inl e)
      | Inr c \<Rightarrow>
          (case call c (fst (test_xy sp)) of
             Inl e \<Rightarrow> ([], Inl e)
           | Inr ypr \<Rightarrow>
               (let attempt = try_confidence c (fst (test_xy sp)) (target sp);
                    printed = (case attempt of
                                 Inl e \<Rightarrow> if is_Exception e then [NoProbaLine e] else []
                               | Inr _ \<Rightarrow> []);
                    with_conf = (case attempt of
                                   Inr t \<Rightarrow> Inr t
                                 | Inl e \<Rightarrow> if is_Exception e
                                           then setitem (target sp) ''confidence'' (Scalar NaN)
                                           else Inl e)
                in case with_conf of
                     Inl e \<Rightarrow> (printed, Inl e)
                   | Inr t1 \<Rightarrow>
                       (case setitem t1 ''prediction'' (Array ypr) of
                          Inl e \<Rightarrow> (printed, Inl e)
                        | Inr t2 \<Rightarrow>
                            (case setitem t2 ''returnQuantity'' (Array (snd (test_xy sp))) of
                               Inl e \<Rightarrow> (printed, Inl e)
                             | Inr t3 \<Rightarrow> (printed, Inr (sp\<lparr>target := t3\<rparr>)))))))"

fun classify_loop ::
  "(string \<times> ('x, 'sc) transformed) list
     \<Rightarrow> out list \<times> (error + (string \<times> ('x, 'sc) transformed) list)" where
  "classify_loop [] = ([], Inr [])"
| "classify_loop ((k, sp) # rest) =
     (case classify_split sp of
        (printed, Inl e) \<Rightarrow> (printed, Inl e)
      | (printed, Inr sp') \<Rightarrow>
          (case classify_loop rest of
             (later, Inl e) \<Rightarrow> (printed @ later, Inl e)
           | (later, Inr done) \<Rightarrow> (printed @ later, Inr ((k, sp') # done))))"

section \<open>Aggregator and reporter\<close>

text \<open>
  \<^verbatim>\<open>np.multiply\<close> of two vectors follows numpy's broadcasting: equal lengths multiply
  entry by entry, a vector of length one is stretched over the other, anything else raises.
\<close>

definition np_multiply :: "rat list \<Rightarrow> rat list \<Rightarrow> error + rat list" where
  "np_multiply a b =
     (if length a = length b then Inr (map2 (*) a b)
      else if length a = 1 then Inr (map (\<lambda>y. hd a * y) b)
      else if length b = 1 then Inr (map (\<lambda>x. x * hd b) a)
      else Inl (ValueError ''operands could not be broadcast together''))"

text \<open>
  The loop of \<^verbatim>\<open>report\<close>, with the external metric \<^verbatim>\<open>dmc.evaluation.precision\<close> as
  a parameter. It carries the lines printed so far and the list \<^verbatim>\<open>precs\<close>.
\<close>

fun report_loop ::
  "(cell list \<Rightarrow> cell list \<Rightarrow> rat) \<Rightarrow> (string \<times> ('x, 'sc) transformed) list
     \<Rightarrow> out list \<Rightarrow> rat list \<Rightarrow> out list \<times> (error + rat list)" where
  "report_loop precision [] printed precs = (printed, Inr precs)"
| "report_loop precision ((k, sp) # rest) printed precs =
     (case getitem (target sp) ''returnQuantity'' of
        Inl e \<Rightarrow> (printed, Inl e)
      | Inr rq \<Rightarrow>
          (if NaN \<notin> set (vals rq) then
             (case getitem (target sp) ''prediction'' of
                Inl e \<Rightarrow> (printed, Inl e)
              | Inr pr \<Rightarrow>
                  (let prec = precision (vals rq) (vals pr)
                   in report_loop precision rest
                        (printed @ [PrecisionLine k prec (len (target sp))]) (precs @ [prec])))
           else report_loop precision rest printed precs))"

text \<open>
  \<^verbatim>\<open>report\<close>: what is printed, and the exception that left the method, if any. The
  weights \<^verbatim>\<open>partials\<close> are taken over all partitions. (A test set without rows has no
  partitions, so the division is by a positive size whenever there is a weight.)
\<close>

definition report ::
  "(cell list \<Rightarrow> cell list \<Rightarrow> rat) \<Rightarrow> ('x, 'sc) transformed ensemble \<Rightarrow> out list \<times> error option" where
  "report precision self =
     (case report_loop precision (splits self) [] [] of
        (printed, Inl e) \<Rightarrow> (printed, Some e)
      | (printed, Inr precs) \<Rightarrow>
          (let partials = map (\<lambda>(k, sp). of_nat (len (target sp)) / of_nat (test_size self))
                              (splits self)
           in if precs \<noteq> [] then
                (case np_multiply precs partials of
                   Inl e \<Rightarrow> (printed, Some e)
                 | Inr products \<Rightarrow> (printed @ [OverallLine (sum_list products)], None))
              else (printed @ [NoLabelsLine], None)))"

section \<open>Result export\<close>

text \<open>
  \<^verbatim>\<open>series.astype(int)\<close>: a number is truncated towards zero, a missing value cannot
  be converted. Predictions are numeric; a string is taken not to convert.
\<close>

fun astype_int :: "cell \<Rightarrow> error + cell" where
  "astype_int NaN = Inl (ValueError ''cannot convert float NaN to integer'')"
| "astype_int (Num q) = Inr (Num (of_int (if 0 \<le> q then \<lfloor>q\<rfloor> else \<lceil>q\<rceil>)))"
| "astype_int (Bl b) = Inr (Num (if b then 1 else 0))"
| "astype_int (Str s) = Inl (ValueError s)"

fun astype_int_all :: "cell list \<Rightarrow> error + cell list" where
  "astype_int_all [] = Inr []"
| "astype_int_all (v # vs) =
     (case astype_int v of
        Inl e \<Rightarrow> Inl e
      | Inr w \<Rightarrow> (case astype_int_all vs of Inl e \<Rightarrow> Inl e | Inr ws \<Rightarrow> Inr (w # ws)))"

text \<open>
  \<^verbatim>\<open>frame[c] = series\<close> aligns the series to the frame's index by label before it
  stores the values.
\<close>

definition setitem_series :: "frame \<Rightarrow> string \<Rightarrow> dtype \<Rightarrow> int list \<Rightarrow> cell list \<Rightarrow> error + frame" where
  "setitem_series f c d sidx svals =
     (if sidx = index f then Inr (put_column f \<lparr>cname = c, dtype = d, vals = svals\<rparr>)
      else if distinct sidx then
        Inr (put_column f \<lparr>cname = c,
                           dtype = (if set (index f) \<subseteq> set sidx then d else upcast d),
                           vals = reindex_vals sidx (index f) svals\<rparr>)
      else Inl (ValueError ''cannot reindex on an axis with duplicate labels''))"

definition concat_all :: "frame list \<Rightarrow> error + frame" where
  "concat_all fs =
     (case fs of
        [] \<Rightarrow> Inl (ValueError ''No objects to concatenate'')
      | f # rest \<Rightarrow> Inr (fold (\<lambda>g acc. concat_rows acc g) rest f))"

definition export_columns :: "string list" where
  "export_columns =
     [''orderID'', ''articleID'', ''colorCode'', ''sizeCode'', ''quantity'', ''confidence'', ''prediction'']"

text \<open>
  \<^verbatim>\<open>dump_results\<close>. \<^verbatim>\<open>test = self.test\<close> binds the local name to the stored frame
  itself, so the two column assignments write to the store at the address
  \<^const>\<open>self_test\<close>. The frame \<^verbatim>\<open>res\<close> is a new object; it is returned here as the table
  written to \<^verbatim>\<open>data/predicted.csv\<close>.
\<close>

definition dump_results ::
  "heap \<Rightarrow> ('x, 'sc) transformed ensemble \<Rightarrow> error + (heap \<times> frame)" where
  "dump_results h self =
     (let r = self_test self
      in case concat_all (map (\<lambda>(k, sp). target sp) (splits self)) of
           Inl e \<Rightarrow> Inl e
         | Inr predicted \<Rightarrow>
             (case getitem predicted ''prediction'' of
                Inl e \<Rightarrow> Inl (AttributeError ''prediction'')
              | Inr pr \<Rightarrow>
                  (case astype_int_all (vals pr) of
                     Inl e \<Rightarrow> Inl e
                   | Inr ints \<Rightarrow>
                       (case setitem_series (h r) ''prediction'' Int64 (index predicted) ints of
                          Inl e \<Rightarrow> Inl e
                        | Inr t1 \<Rightarrow>
                            (let h1 = h(r := t1)
                             in case getitem predicted ''confidence'' of
                                  Inl e \<Rightarrow> Inl (AttributeError ''confidence'')
                                | Inr cf \<Rightarrow>
                                    (case setitem_series (h1 r) ''confidence'' (dtype cf)
                                            (index predicted) (vals cf) of
                                       Inl e \<Rightarrow> Inl e
                                     | Inr t2 \<Rightarrow>
                                         (let h2 = h1(r := t2)
                                          in Inr (h2, with_columns (h2 r) export_columns))))))))"

text \<open>
  \<^verbatim>\<open>classify\<close>: classify every partition, report, and export when asked to. The result
  is the printed lines and either the exception or the ensemble, the store and the
  exported table (if any).
\<close>

definition classify ::
  "(cell list \<Rightarrow> cell list \<Rightarrow> rat) \<Rightarrow> heap \<Rightarrow> ('x, 'sc) transformed ensemble \<Rightarrow> bool
     \<Rightarrow> out list \<times> (error + (('x, 'sc) transformed ensemble \<times> heap \<times> frame option))" where
  "classify precision h self dump =
     (case classify_loop (splits self) of
        (printed, Inl e) \<Rightarrow> (printed, Inl e)
      | (printed, Inr done) \<Rightarrow>
          (let self' = self\<lparr>splits := done\<rparr>
           in case report precision self' of
                (lines, Some e) \<Rightarrow> (printed @ lines, Inl e)
              | (lines, None) \<Rightarrow>
                  (if dump then
                     (case dump_results h self' of
                        Inl e \<Rightarrow> (printed @ lines, Inl e)
                      | Inr (h', res) \<Rightarrow> (printed @ lines, Inr (self', h', Some res)))
                   else (printed @ lines, Inr (self', h, None)))))"

section \<open>Notions for stating the properties of the report\<close>

text \<open>
  The label column and the prediction column of a classified partition, whether the
  partition can be scored (no label is missing), and the line \<^verbatim>\<open>report\<close> prints for
  a scored partition.
\<close>

definition label_vals :: "('x, 'sc) transformed \<Rightarrow> cell list" where
  "label_vals sp = (case getitem (target sp) ''returnQuantity'' of Inr c \<Rightarrow> vals c | Inl e \<Rightarrow> [])"

definition prediction_vals :: "('x, 'sc) transformed \<Rightarrow> cell list" where
  "prediction_vals sp = (case getitem (target sp) ''prediction'' of Inr c \<Rightarrow> vals c | Inl e \<Rightarrow> [])"

definition classified :: "('x, 'sc) transformed \<Rightarrow> bool" where
  "classified sp =
     (\<not> isl (getitem (target sp) ''returnQuantity'') \<and> \<not> isl (getitem (target sp) ''prediction''))"

definition scorable :: "('x, 'sc) transformed \<Rightarrow> bool" where
  "scorable sp = (NaN \<notin> set (label_vals sp))"

definition precision_of :: "(cell list \<Rightarrow> cell list \<Rightarrow> rat) \<Rightarrow> ('x, 'sc) transformed \<Rightarrow> rat" where
  "precision_of precision sp = precision (label_vals sp) (prediction_vals sp)"

definition precision_line ::
  "(cell list \<Rightarrow> cell list \<Rightarrow> rat) \<Rightarrow> string \<times> ('x, 'sc) transformed \<Rightarrow> out" where
  "precision_line precision ksp =
     PrecisionLine (fst ksp) (precision_of precision (snd ksp)) (len (target (snd ksp)))"

section \<open>Concrete inputs\<close>

text \<open>
  A small training frame and a test frame of three rows. Row 11 of the test frame has an
  article that the training frame does not know, no customer, no size code, no
  recommended price and no label; the training frame has a row without customer too.
\<close>

definition ex_train :: frame where
  "ex_train =
     \<lparr>index = [0, 1],
      cols = [\<lparr>cname = ''articleID'', dtype = Object, vals = [Str ''A1'', Str ''A2'']\<rparr>,
              \<lparr>cname = ''customerID'', dtype = Object, vals = [Str ''C1'', NaN]\<rparr>,
              \<lparr>cname = ''voucherID'', dtype = Object, vals = [Str ''V1'', Str ''V1'']\<rparr>,
              \<lparr>cname = ''productGroup'', dtype = Float64, vals = [Num 1, Num 2]\<rparr>,
              \<lparr>cname = ''sizeCode'', dtype = Object, vals = [Str ''S'', Str ''M'']\<rparr>,
              \<lparr>cname = ''rrp'', dtype = Float64, vals = [Num 1, Num 2]\<rparr>,
              \<lparr>cname = ''returnQuantity'', dtype = Float64, vals = [Num 1, Num 0]\<rparr>]\<rparr>"

definition ex_test :: frame where
  "ex_test =
     \<lparr>index = [10, 11, 12],
      cols = [\<lparr>cname = ''articleID'', dtype = Object, vals = [Str ''A1'', Str ''A3'', Str ''A2'']\<rparr>,
              \<lparr>cname = ''customerID'', dtype = Object, vals = [Str ''C1'', NaN, Str ''C1'']\<rparr>,
              \<lparr>cname = ''voucherID'', dtype = Object, vals = [Str ''V1'', Str ''V1'', Str ''V1'']\<rparr>,
              \<lparr>cname = ''productGroup'', dtype = Float64, vals = [Num 1, Num 2, Num 1]\<rparr>,
              \<lparr>cname = ''sizeCode'', dtype = Object, vals = [Str ''S'', NaN, Str ''M'']\<rparr>,
              \<lparr>cname = ''rrp'', dtype = Float64, vals = [Num 1, NaN, Num 2]\<rparr>,
              \<lparr>cname = ''returnQuantity'', dtype = Float64, vals = [Num 1, NaN, Num 0]\<rparr>]\<rparr>"

definition ex_parts :: "(string \<times> partition) list" where
  "ex_parts = (case split ex_train ex_test of Inr parts \<Rightarrow> parts | Inl e \<Rightarrow> [])"

definition ex_parts_ukkk :: partition where
  "ex_parts_ukkk = snd (hd ex_parts)"

definition ex_mask :: frame where
  "ex_mask =
     (case add_recognition_vector ex_train ex_test potentially_unknown of
        Inr km \<Rightarrow> km
      | Inl e \<Rightarrow> \<lparr>index = [], cols = []\<rparr>)"

text \<open>
  Stand-ins for the external collaborators: a transformer whose feature rows are the row
  labels and whose target vector is the label column, a classifier that predicts 1 for every
  row and has no \<^verbatim>\<open>predict_proba\<close>, and the share of matching labels as metric.
\<close>

definition ex_transform :: "(int, unit) transformer" where
  "ex_transform data binary_target sc ignored =
     Inr (index data, vals (col_or_nan data ''returnQuantity''))"

definition ex_clf :: "int clf" where
  "ex_clf = \<lparr>call = (\<lambda>X. Inr (map (\<lambda>x. Num 1) X)), predict_proba = None\<rparr>"

definition ex_factory :: "int factory" where
  "ex_factory X Y = Inr ex_clf"

definition ex_config :: "int option \<Rightarrow> (int, unit) config" where
  "ex_config n =
     \<lparr>cfg_sample = n, cfg_scaler = None, cfg_ignore_features = None, cfg_classifier = ex_factory\<rparr>"

definition ex_precision :: "cell list \<Rightarrow> cell list \<Rightarrow> rat" where
  "ex_precision ys ps = of_nat (length (filter (\<lambda>(y, p). y = p) (zip ys ps))) / of_nat (length ys)"

definition ex_heap :: heap where
  "ex_heap = (\<lambda>r. ex_test)"

definition ex_params_incomplete :: "string \<rightharpoonup> (int, unit) config" where
  "ex_params_incomplete = [''kkkk'' \<mapsto> ex_config None]"

definition ex_splinter :: "int option \<Rightarrow> (int, unit) splinter" where
  "ex_splinter n = merge ex_parts_ukkk (ex_config n)"



definition ex_sampled :: frame where
  "ex_sampled =
     (case sampled_train rev (ex_splinter (Some 1)) of
        Inr f \<Rightarrow> f
      | Inl e \<Rightarrow> \<lparr>index = [], cols = []\<rparr>)"

text \<open>The record of the partition \<open>ukkk\<close> as the transform step leaves it.\<close>

definition ex_transformed :: "(int, unit) transformed" where
  "ex_transformed =
     \<lparr>train_xy = ([0, 1], [Num 1, Num 0]),
      test_xy = ([11], [NaN]),
      target = transform_target_frame (test ex_parts_ukkk),
      name_t = name ex_parts_ukkk, sample_t = None, scaler_t = None,
      ignore_features_t = None, classifier_t = ex_factory\<rparr>"

text \<open>
  The ensemble over the two example frames, every key configured alike, after
  \<^verbatim>\<open>transform\<close> and after the classification loop of \<^verbatim>\<open>classify\<close>. The partition
  \<open>ukkk\<close> (row 11) has no label; the partition \<open>kkkk\<close> (rows 10 and 12) is labelled.
\<close>

definition ex_params :: "string \<rightharpoonup> (int, unit) config" where
  "ex_params = (\<lambda>k. Some (ex_config None))"

definition ex_classified_from :: "frame \<Rightarrow> (int, unit) transformed ensemble" where
  "ex_classified_from te =
     (case init (\<lambda>r. te) ex_train 0 ex_params of
        Inl e \<Rightarrow> \<lparr>test_size = 0, self_test = 0, splits = []\<rparr>
      | Inr e1 \<Rightarrow>
          (case transform_all id ex_transform e1 of
             Inl e \<Rightarrow> \<lparr>test_size = 0, self_test = 0, splits = []\<rparr>
           | Inr e2 \<Rightarrow>
               (case classify_loop (splits e2) of
                  (printed, Inl e) \<Rightarrow> \<lparr>test_size = 0, self_test = 0, splits = []\<rparr>
                | (printed, Inr done) \<Rightarrow> e2\<lparr>splits := done\<rparr>)))"

definition ex_classified :: "(int, unit) transformed ensemble" where
  "ex_classified = ex_classified_from ex_test"

text \<open>
  The same test frame with a fourth, labelled row whose voucher the training frame does not
  know: three partitions, \<open>ukkk\<close> without label, \<open>kkuk\<close> and \<open>kkkk\<close> labelled.
\<close>

definition ex_test4 :: frame where
  "ex_test4 =
     \<lparr>index = [10, 11, 12, 13],
      cols = [\<lparr>cname = ''articleID'', dtype = Object, vals = [Str ''A1'', Str ''A3'', Str ''A2'', Str ''A1'']\<rparr>,
              \<lparr>cname = ''customerID'', dtype = Object, vals = [Str ''C1'', NaN, Str ''C1'', Str ''C1'']\<rparr>,
              \<lparr>cname = ''voucherID'', dtype = Object, vals = [Str ''V1'', Str ''V1'', Str ''V1'', Str ''V9'']\<rparr>,
              \<lparr>cname = ''productGroup'', dtype = Float64, vals = [Num 1, Num 2, Num 1, Num 1]\<rparr>,
              \<lparr>cname = ''sizeCode'', dtype = Object, vals = [Str ''S'', NaN, Str ''M'', Str ''S'']\<rparr>,
              \<lparr>cname = ''rrp'', dtype = Float64, vals = [Num 1, NaN, Num 2, Num 1]\<rparr>,
              \<lparr>cname = ''returnQuantity'', dtype = Float64, vals = [Num 1, NaN, Num 0, Num 1]\<rparr>]\<rparr>"

definition ex_classified4 :: "(int, unit) transformed ensemble" where
  "ex_classified4 = ex_classified_from ex_test4"

text \<open>The store and the table that \<^verbatim>\<open>dump_results\<close> leaves for the example ensemble.\<close>

definition ex_dumped :: "heap \<times> frame" where
  "ex_dumped = projr (dump_results ex_heap ex_classified)"

section \<open>Properties of the knownness detector and the partitioner\<close>

lemma getitem_Inr: "getitem f c = Inr col \<Longrightarrow> col \<in> set (cols f) \<and> cname col = c"
  by (auto simp: getitem_def find_Some_iff split: option.splits)

lemma getitems_Inr:
  "getitems f cs = Inr sel \<Longrightarrow> map cname sel = cs \<and> set sel \<subseteq> set (cols f)"
proof (induction cs arbitrary: sel)
  case Nil then show ?case by simp
next
  case (Cons c cs)
  then show ?case by (auto split: sum.splits dest: getitem_Inr)
qed

lemma apply_isin_Inr:
  "apply_isin tr sel = Inr ks \<Longrightarrow>
     map cname ks = map cname sel \<and> map (\<lambda>c. length (vals c)) ks = map (\<lambda>c. length (vals c)) sel
     \<and> list_all (\<lambda>c. dtype c = Boolean) ks"
proof (induction sel arbitrary: ks)
  case Nil then show ?case by simp
next
  case (Cons c cs)
  then show ?case by (auto simp: isin_def split: sum.splits)
qed
























lemma getitems_length: "getitems f cs = Inr sel \<Longrightarrow> length sel = length cs"
  using getitems_Inr[of f cs sel] by (metis length_map)

lemma getitems_nth:
  "getitems f cs = Inr sel \<Longrightarrow> i < length cs \<Longrightarrow> getitem f (cs ! i) = Inr (sel ! i)"
proof (induction cs arbitrary: sel i)
  case Nil then show ?case by simp
next
  case (Cons c cs)
  then show ?case by (cases i) (auto split: sum.splits)
qed

lemma apply_isin_nth:
  "apply_isin tr sel = Inr ks \<Longrightarrow> i < length sel \<Longrightarrow>
     \<exists>trc. getitem tr (cname (sel ! i)) = Inr trc \<and>
           ks ! i = \<lparr>cname = cname (sel ! i), dtype = Boolean, vals = isin (sel ! i) (vals trc)\<rparr>"
proof (induction sel arbitrary: ks i)
  case Nil then show ?case by simp
next
  case (Cons c cs)
  then show ?case by (cases i) (auto split: sum.splits)
qed

text \<open>
  Claim C5, as amended. For every tracked column the detector marks a test row true exactly
  when the row's value occurs among the training values of that column. A missing value is
  a value in this membership test: a \<open>NaN\<close> test cell is marked known exactly when the
  training column holds a \<open>NaN\<close>.
\<close>

theorem add_recognition_vector_membership:
  assumes "add_recognition_vector tr te cs = Inr km" and "i < length cs"
  shows "\<exists>tc trc. getitem te (cs ! i) = Inr tc \<and> getitem tr (cs ! i) = Inr trc
           \<and> index km = index te \<and> length (cols km) = length cs
           \<and> cname (cols km ! i) = ''known_'' @ cs ! i
           \<and> vals (cols km ! i) = map (\<lambda>v. Bl (v \<in> set (vals trc))) (vals tc)"
proof -
  from assms(1) obtain sel known where
    sel: "getitems te cs = Inr sel" and known: "apply_isin tr sel = Inr known"
    and km: "km = \<lparr>index = index te, cols = map (\<lambda>(c, k). k\<lparr>cname := ''known_'' @ c\<rparr>) (zip cs known)\<rparr>"
    by (auto simp: add_recognition_vector_def split: sum.splits)
  have g1: "getitem te (cs ! i) = Inr (sel ! i)" by (rule getitems_nth[OF sel assms(2)])
  have l1: "length sel = length cs" by (rule getitems_length[OF sel])
  have l2: "length known = length sel" using apply_isin_Inr[OF known] by (metis length_map)
  from apply_isin_nth[OF known] assms(2) l1 obtain trc where
    g2: "getitem tr (cname (sel ! i)) = Inr trc" and
    ki: "known ! i = \<lparr>cname = cname (sel ! i), dtype = Boolean, vals = isin (sel ! i) (vals trc)\<rparr>"
    by auto
  have nm: "cname (sel ! i) = cs ! i" using getitem_Inr[OF g1] by simp
  have "cols km ! i = (known ! i)\<lparr>cname := ''known_'' @ cs ! i\<rparr>"
    using assms(2) l1 l2 by (simp add: km)
  then have "cname (cols km ! i) = ''known_'' @ cs ! i"
    and "vals (cols km ! i) = map (\<lambda>v. Bl (v \<in> set (vals trc))) (vals (sel ! i))"
    by (simp_all add: ki isin_def)
  moreover have "length (cols km) = length cs" using l1 l2 by (simp add: km)
  moreover have "index km = index te" by (simp add: km)
  ultimately show ?thesis using g1 g2 nm by auto
qed

theorem add_recognition_vector_membership_witness:
  "add_recognition_vector ex_train ex_test potentially_unknown = Inr ex_mask
   \<and> (0::nat) < length potentially_unknown
   \<and> (\<exists>tc trc. getitem ex_test (potentially_unknown ! 0) = Inr tc
        \<and> getitem ex_train (potentially_unknown ! 0) = Inr trc
        \<and> vals (cols ex_mask ! 0) = map (\<lambda>v. Bl (v \<in> set (vals trc))) (vals tc))
   \<and> vals (cols ex_mask ! 0) = [Bl True, Bl False, Bl True]"
proof -
  have h1: "add_recognition_vector ex_train ex_test potentially_unknown = Inr ex_mask" by code_simp
  have h2: "(0::nat) < length potentially_unknown" by code_simp
  have h3: "vals (cols ex_mask ! 0) = [Bl True, Bl False, Bl True]" by code_simp
  from add_recognition_vector_membership[OF h1 h2] h1 h2 h3 show ?thesis by blast
qed

text \<open>
  Claim C5 as stated fails: the customer of test row 11 is missing, the training frame has
  a row without customer, and the row is marked as having a known customer.
\<close>

theorem nan_marked_known_counterexample:
  "getitem ex_test ''customerID'' = Inr \<lparr>cname = ''customerID'', dtype = Object, vals = [Str ''C1'', NaN, Str ''C1'']\<rparr>
   \<and> add_recognition_vector ex_train ex_test [''customerID'']
       = Inr \<lparr>index = [10, 11, 12],
              cols = [\<lparr>cname = ''known_customerID'', dtype = Boolean, vals = [Bl True, Bl True, Bl True]\<rparr>]\<rparr>"
  by code_simp









section \<open>Properties of the configurator\<close>

lemma enrich_splits_first_missing:
  "k \<in> fst ` set parts \<Longrightarrow> params k = None \<Longrightarrow>
     \<exists>k'. k' \<in> fst ` set parts \<and> params k' = None \<and> enrich_splits parts params = Inl (KeyError k')"
proof (induction parts)
  case Nil then show ?case by simp
next
  case (Cons kp parts)
  obtain k0 p0 where kp: "kp = (k0, p0)" by (cases kp)
  show ?case
  proof (cases "params k0")
    case None
    then show ?thesis by (auto simp: kp intro!: exI[of _ k0])
  next
    case (Some cfg)
    with Cons.prems kp have "k \<in> fst ` set parts" by auto
    from Cons.IH[OF this Cons.prems(2)] obtain k' where
      "k' \<in> fst ` set parts" "params k' = None" "enrich_splits parts params = Inl (KeyError k')"
      by blast
    then show ?thesis using Some by (auto simp: kp intro!: exI[of _ k'])
  qed
qed

lemma enrich_splits_complete:
  "\<forall>k\<in>fst ` set parts. params k \<noteq> None \<Longrightarrow>
     enrich_splits parts params = Inr (map (\<lambda>(k, p). (k, merge p (the (params k)))) parts)"
  by (induction parts) auto

text \<open>
  Claim C7. If some key of the partition mapping has no entry in the configuration, merging
  the configuration raises \<^verbatim>\<open>KeyError\<close> for a missing key and the constructor fails
  with it: no ensemble is built and no default configuration takes the place of the
  missing one.
\<close>

theorem init_missing_configuration:
  assumes "split tr (h r) = Inr parts" and "k \<in> fst ` set parts" and "params k = None"
  shows "\<exists>k'. k' \<in> fst ` set parts \<and> params k' = None
            \<and> enrich_splits parts params = Inl (KeyError k')
            \<and> init h tr r params = Inl (KeyError k')"
proof -
  from enrich_splits_first_missing[of k parts params, OF assms(2,3)] obtain k' where
    k': "k' \<in> fst ` set parts" "params k' = None" "enrich_splits parts params = Inl (KeyError k')"
    by blast
  then have "init h tr r params = Inl (KeyError k')"
    by (simp add: init_def assms(1))
  with k' show ?thesis by blast
qed

theorem init_missing_configuration_witness:
  "split ex_train (ex_heap 0) = Inr ex_parts \<and> ''ukkk'' \<in> fst ` set ex_parts
   \<and> ex_params_incomplete ''ukkk'' = None
   \<and> (\<exists>k'. init ex_heap ex_train 0 ex_params_incomplete = Inl (KeyError k'))"
proof -
  have h1: "split ex_train (ex_heap 0) = Inr ex_parts" by code_simp
  have h2: "''ukkk'' \<in> fst ` set ex_parts" by code_simp
  have h3: "ex_params_incomplete ''ukkk'' = None" by (simp add: ex_params_incomplete_def)
  from init_missing_configuration[of ex_train ex_heap 0 ex_parts "''ukkk''" ex_params_incomplete,
      OF h1 h2 h3] h1 h2 h3
  show ?thesis by blast
qed

section \<open>Properties of the transformer\<close>















section \<open>Properties of the transform step\<close>

lemma concat_rows_index: "index (concat_rows a b) = index a @ index b"
  by (simp add: concat_rows_def)

lemma len_concat_rows: "len (concat_rows a b) = len a + len b"
  by (simp add: len_def concat_rows_index)

text \<open>
  Claim C9. The transform step calls the transformer once, on the training frame that
  \<^const>\<open>sampled_train\<close> returns put on top of the partition's test frame; with \<open>offset\<close>
  the row count of that training frame, the record's training pair is the first
  \<open>offset\<close> entries of the feature matrix and of the target vector, its test pair is the
  rest, and the target frame has the index of the test frame. If the transformer returns
  as many feature rows (targets) as the concatenation has rows, the test slice has exactly
  as many rows as the partition's test frame and the training slice has \<open>offset\<close> rows.
\<close>

theorem transform_split_slices:
  assumes "sampled_train perm sp = Inr tr"
    and "transform (concat_rows tr (test sp)) True (scaler sp) (ignore_features sp) = Inr (X, Y)"
  shows "\<exists>t. transform_split perm transform sp = Inr t
           \<and> index (concat_rows tr (test sp)) = index tr @ index (test sp)
           \<and> train_xy t = (take (len tr) X, take (len tr) Y)
           \<and> test_xy t = (drop (len tr) X, drop (len tr) Y)
           \<and> fst (train_xy t) @ fst (test_xy t) = X
           \<and> snd (train_xy t) @ snd (test_xy t) = Y
           \<and> index (target t) = index (test sp)
           \<and> (length X = len (concat_rows tr (test sp)) \<longrightarrow>
                 length (fst (train_xy t)) = len tr \<and> length (fst (test_xy t)) = len (test sp))
           \<and> (length Y = len (concat_rows tr (test sp)) \<longrightarrow>
                 length (snd (train_xy t)) = len tr \<and> length (snd (test_xy t)) = len (test sp))"
  using assms
  by (simp add: transform_split_def Let_def concat_rows_index len_concat_rows
      transform_target_frame_def with_columns_def)

theorem transform_split_slices_witness:
  "sampled_train rev (ex_splinter (Some 1)) = Inr ex_sampled
   \<and> ex_transform (concat_rows ex_sampled (test (ex_splinter (Some 1)))) True
        (scaler (ex_splinter (Some 1))) (ignore_features (ex_splinter (Some 1)))
       = Inr ([1, 11], [Num 0, NaN])
   \<and> length [1, 11 :: int] = len (concat_rows ex_sampled (test (ex_splinter (Some 1))))
   \<and> (\<exists>t. transform_split rev ex_transform (ex_splinter (Some 1)) = Inr t
          \<and> train_xy t = ([1], [Num 0]) \<and> test_xy t = ([11], [NaN])
          \<and> length (fst (test_xy t)) = len (test (ex_splinter (Some 1))))"
proof -
  have h1: "sampled_train rev (ex_splinter (Some 1)) = Inr ex_sampled" by code_simp
  have h2: "ex_transform (concat_rows ex_sampled (test (ex_splinter (Some 1)))) True
        (scaler (ex_splinter (Some 1))) (ignore_features (ex_splinter (Some 1)))
       = Inr ([1, 11], [Num 0, NaN])" by code_simp
  have h3: "length [1, 11 :: int] = len (concat_rows ex_sampled (test (ex_splinter (Some 1))))"
    by code_simp
  have h4: "len ex_sampled = 1" by code_simp
  from transform_split_slices[of rev "ex_splinter (Some 1)" ex_sampled ex_transform "[1, 11]" "[Num 0, NaN]",
      OF h1 h2] h3 h4
  obtain t where t: "transform_split rev ex_transform (ex_splinter (Some 1)) = Inr t"
    "train_xy t = ([1], [Num 0])" "test_xy t = ([11], [NaN])"
    "length (fst (test_xy t)) = len (test (ex_splinter (Some 1)))"
    by auto
  with h1 h2 h3 show ?thesis by blast
qed

section \<open>Properties of the classifier step\<close>

lemma find_replaced:
  "cname col = n \<Longrightarrow> n \<in> cname ` set xs \<Longrightarrow>
     find (\<lambda>c. cname c = n) (map (\<lambda>c. if cname c = n then col else c) xs) = Some col"
  by (induction xs) auto

lemma find_appended:
  "n \<notin> cname ` set xs \<Longrightarrow> cname col = n \<Longrightarrow> find (\<lambda>c. cname c = n) (xs @ [col]) = Some col"
  by (induction xs) auto

lemma find_other_replaced:
  "n \<noteq> cname col \<Longrightarrow>
     find (\<lambda>c. cname c = n) (map (\<lambda>c. if cname c = cname col then col else c) xs)
       = find (\<lambda>c. cname c = n) xs"
  by (induction xs) auto

lemma find_other_appended:
  "n \<noteq> cname col \<Longrightarrow> find (\<lambda>c. cname c = n) (xs @ [col]) = find (\<lambda>c. cname c = n) xs"
  by (induction xs) auto

lemma getitem_put_same: "getitem (put_column f col) (cname col) = Inr col"
  by (simp add: getitem_def put_column_def columns_def find_replaced find_appended)

lemma getitem_put_other: "n \<noteq> cname col \<Longrightarrow> getitem (put_column f col) n = getitem f n"
  by (simp add: getitem_def put_column_def find_other_replaced find_other_appended)

lemma index_put_column: "index (put_column f col) = index f"
  by (simp add: put_column_def)

lemma len_put_column: "len (put_column f col) = len f"
  by (simp add: len_def index_put_column)

lemma setitem_Scalar:
  "setitem f c (Scalar x) = Inr (put_column f \<lparr>cname = c, dtype = infer_dtype [x], vals = replicate (len f) x\<rparr>)"
  by (simp add: setitem_def)

lemma setitem_Array:
  "length xs = len f \<Longrightarrow>
     setitem f c (Array xs) = Inr (put_column f \<lparr>cname = c, dtype = infer_dtype xs, vals = xs\<rparr>)"
  by (simp add: setitem_def)

lemma try_confidence_fails:
  assumes "predict_proba c = None \<and> e = AttributeError ''predict_proba''
           \<or> (\<exists>proba. predict_proba c = Some proba \<and> proba X = Inl e)"
  shows "try_confidence c X tgt = Inl e"
  using assms by (auto simp: try_confidence_def)

text \<open>
  Claim C8. Let training and prediction succeed for a partition, with one prediction and
  one label per row of the target frame. If the classifier has no \<^verbatim>\<open>predict_proba\<close>, or
  the call of it raises an exception (one derived from \<^verbatim>\<open>Exception\<close>, which is what the
  handler catches), then \<^verbatim>\<open>_classify_split\<close> still returns the record: the failure is
  printed, the confidence column is missing in every row, and the prediction and label
  columns hold the predictions and the labels.
\<close>

theorem classify_split_without_confidence:
  assumes "classifier_t sp (fst (train_xy sp)) (snd (train_xy sp)) = Inr c"
    and "call c (fst (test_xy sp)) = Inr ypr"
    and "predict_proba c = None \<and> e = AttributeError ''predict_proba''
         \<or> (\<exists>proba. predict_proba c = Some proba \<and> proba (fst (test_xy sp)) = Inl e)"
    and "is_Exception e"
    and "length ypr = len (target sp)"
    and "length (snd (test_xy sp)) = len (target sp)"
  shows "\<exists>t. classify_split sp = ([NoProbaLine e], Inr (sp\<lparr>target := t\<rparr>))
           \<and> index t = index (target sp)
           \<and> getitem t ''confidence''
                = Inr \<lparr>cname = ''confidence'', dtype = Float64, vals = replicate (len (target sp)) NaN\<rparr>
           \<and> (\<exists>d. getitem t ''prediction'' = Inr \<lparr>cname = ''prediction'', dtype = d, vals = ypr\<rparr>)
           \<and> (\<exists>d. getitem t ''returnQuantity''
                     = Inr \<lparr>cname = ''returnQuantity'', dtype = d, vals = snd (test_xy sp)\<rparr>)"
proof -
  let ?X = "fst (test_xy sp)"
  let ?cc = "\<lparr>cname = ''confidence'', dtype = Float64, vals = replicate (len (target sp)) NaN\<rparr>"
  let ?pc = "\<lparr>cname = ''prediction'', dtype = infer_dtype ypr, vals = ypr\<rparr>"
  let ?rc = "\<lparr>cname = ''returnQuantity'', dtype = infer_dtype (snd (test_xy sp)), vals = snd (test_xy sp)\<rparr>"
  let ?t1 = "put_column (target sp) ?cc"
  let ?t2 = "put_column ?t1 ?pc"
  let ?t3 = "put_column ?t2 ?rc"
  have att: "try_confidence c ?X (target sp) = Inl e"
    by (rule try_confidence_fails[OF assms(3)])
  have s1: "setitem (target sp) ''confidence'' (Scalar NaN) = Inr ?t1"
    by (simp add: setitem_Scalar)
  have s2: "setitem ?t1 ''prediction'' (Array ypr) = Inr ?t2"
    using assms(5) by (simp add: setitem_Array len_put_column)
  have s3: "setitem ?t2 ''returnQuantity'' (Array (snd (test_xy sp))) = Inr ?t3"
    using assms(6) by (simp add: setitem_Array len_put_column)
  have run: "classify_split sp = ([NoProbaLine e], Inr (sp\<lparr>target := ?t3\<rparr>))"
    unfolding classify_split_def Let_def
    by (simp only: assms(1) assms(2) att s1 s2 s3 assms(4) sum.case if_True)
  have ix: "index ?t3 = index (target sp)" by (simp add: index_put_column)
  have gr: "getitem ?t3 ''returnQuantity'' = Inr ?rc"
    using getitem_put_same[of ?t2 ?rc] by simp
  have "getitem ?t3 ''prediction'' = getitem ?t2 ''prediction''"
    by (rule getitem_put_other) simp
  also have "\<dots> = Inr ?pc" using getitem_put_same[of ?t1 ?pc] by simp
  finally have gp: "getitem ?t3 ''prediction'' = Inr ?pc" .
  have "getitem ?t3 ''confidence'' = getitem ?t2 ''confidence''"
    by (rule getitem_put_other) simp
  also have "\<dots> = getitem ?t1 ''confidence''"
    by (rule getitem_put_other) simp
  also have "\<dots> = Inr ?cc" using getitem_put_same[of "target sp" ?cc] by simp
  finally have gc: "getitem ?t3 ''confidence'' = Inr ?cc" .
  from run ix gc gp gr show ?thesis by blast
qed

theorem classify_split_without_confidence_witness:
  "classifier_t ex_transformed (fst (train_xy ex_transformed)) (snd (train_xy ex_transformed)) = Inr ex_clf
   \<and> call ex_clf (fst (test_xy ex_transformed)) = Inr [Num 1]
   \<and> predict_proba ex_clf = None
   \<and> is_Exception (AttributeError ''predict_proba'')
   \<and> length [Num 1] = len (target ex_transformed)
   \<and> length (snd (test_xy ex_transformed)) = len (target ex_transformed)
   \<and> (\<exists>t. classify_split ex_transformed
             = ([NoProbaLine (AttributeError ''predict_proba'')], Inr (ex_transformed\<lparr>target := t\<rparr>))
          \<and> getitem t ''confidence''
               = Inr \<lparr>cname = ''confidence'', dtype = Float64, vals = replicate (len (target ex_transformed)) NaN\<rparr>)"
proof -
  have h1: "classifier_t ex_transformed (fst (train_xy ex_transformed)) (snd (train_xy ex_transformed)) = Inr ex_clf"
    by (simp add: ex_transformed_def ex_factory_def)
  have h2: "call ex_clf (fst (test_xy ex_transformed)) = Inr [Num 1]"
    by (simp add: ex_transformed_def ex_clf_def)
  have h3: "predict_proba ex_clf = None \<and> AttributeError ''predict_proba'' = AttributeError ''predict_proba''
         \<or> (\<exists>proba. predict_proba ex_clf = Some proba
                \<and> proba (fst (test_xy ex_transformed)) = Inl (AttributeError ''predict_proba''))"
    by (simp add: ex_clf_def)
  have h4: "is_Exception (AttributeError ''predict_proba'')" by simp
  have h5: "length [Num 1] = len (target ex_transformed)" by code_simp
  have h6: "length (snd (test_xy ex_transformed)) = len (target ex_transformed)" by code_simp
  have h7: "predict_proba ex_clf = None" by (simp add: ex_clf_def)
  from classify_split_without_confidence[OF h1 h2 h3 h4 h5 h6] h1 h2 h4 h5 h6 h7
  show ?thesis by blast
qed

section \<open>Properties of the report\<close>

lemma classified_columns:
  assumes "classified sp"
  obtains rq pr where "getitem (target sp) ''returnQuantity'' = Inr rq"
    and "getitem (target sp) ''prediction'' = Inr pr"
    and "label_vals sp = vals rq" and "prediction_vals sp = vals pr"
proof -
  from assms obtain rq pr where g: "getitem (target sp) ''returnQuantity'' = Inr rq"
    "getitem (target sp) ''prediction'' = Inr pr"
    unfolding classified_def
    by (cases "getitem (target sp) ''returnQuantity''"; cases "getitem (target sp) ''prediction''") auto
  then have "label_vals sp = vals rq" "prediction_vals sp = vals pr"
    by (simp_all add: label_vals_def prediction_vals_def)
  with g that show thesis by blast
qed

lemma report_loop_result:
  assumes "\<forall>ksp\<in>set sps. classified (snd ksp)"
  shows "report_loop P sps printed precs
       = (printed @ map (precision_line P) (filter (\<lambda>ksp. scorable (snd ksp)) sps),
          Inr (precs @ map (\<lambda>ksp. precision_of P (snd ksp)) (filter (\<lambda>ksp. scorable (snd ksp)) sps)))"
  using assms
proof (induction sps arbitrary: printed precs)
  case Nil
  then show ?case by simp
next
  case (Cons ksp sps)
  obtain k sp where ksp: "ksp = (k, sp)" by (cases ksp)
  from Cons.prems have c: "classified sp" and rest: "\<forall>ksp\<in>set sps. classified (snd ksp)"
    by (simp_all add: ksp)
  from classified_columns[OF c] obtain rq pr where
    g: "getitem (target sp) ''returnQuantity'' = Inr rq" "getitem (target sp) ''prediction'' = Inr pr"
    and v: "label_vals sp = vals rq" "prediction_vals sp = vals pr" by blast
  show ?case
  proof (cases "NaN \<in> set (vals rq)")
    case True
    then have "\<not> scorable sp" by (simp add: scorable_def v)
    then show ?thesis using True g Cons.IH[OF rest] by (simp add: ksp)
  next
    case False
    then have s: "scorable sp" by (simp add: scorable_def v)
    have "report_loop P (ksp # sps) printed precs
        = report_loop P sps (printed @ [PrecisionLine k (P (vals rq) (vals pr)) (len (target sp))])
            (precs @ [P (vals rq) (vals pr)])"
      using False g by (simp add: ksp Let_def)
    also have "\<dots> = ((printed @ [PrecisionLine k (P (vals rq) (vals pr)) (len (target sp))])
                       @ map (precision_line P) (filter (\<lambda>ksp. scorable (snd ksp)) sps),
                     Inr ((precs @ [P (vals rq) (vals pr)])
                       @ map (\<lambda>ksp. precision_of P (snd ksp)) (filter (\<lambda>ksp. scorable (snd ksp)) sps)))"
      by (rule Cons.IH[OF rest])
    finally show ?thesis
      using s by (simp add: ksp precision_line_def precision_of_def v)
  qed
qed

lemma report_unfold:
  assumes "\<forall>ksp\<in>set (splits self). classified (snd ksp)"
  shows "report P self =
     (let scored = filter (\<lambda>ksp. scorable (snd ksp)) (splits self);
          printed = map (precision_line P) scored;
          precs = map (\<lambda>ksp. precision_of P (snd ksp)) scored;
          partials = map (\<lambda>(k, sp). of_nat (len (target sp)) / of_nat (test_size self)) (splits self)
      in if precs \<noteq> [] then
           (case np_multiply precs partials of
              Inl e \<Rightarrow> (printed, Some e)
            | Inr products \<Rightarrow> (printed @ [OverallLine (sum_list products)], None))
         else (printed @ [NoLabelsLine], None))"
  unfolding report_def report_loop_result[OF assms, of P "[]" "[]"] by (simp add: Let_def)

lemma precision_line_neq [simp]:
  "precision_line P ksp \<noteq> NoLabelsLine" "precision_line P ksp \<noteq> OverallLine x"
  "NoLabelsLine \<noteq> precision_line P ksp" "OverallLine x \<noteq> precision_line P ksp"
  by (simp_all add: precision_line_def)

text \<open>
  Claim C6, as amended. On classified partitions \<^verbatim>\<open>report\<close> prints one precision line
  for every partition without a missing label, in order, and none for a partition with a
  missing label: such a partition is not scored. After these lines it prints at most one
  more line, and that line is the notice of missing evaluation labels exactly when no
  partition at all can be scored; the notice is for the run, not for a key.
\<close>

theorem report_skips_unlabelled_partitions:
  assumes "\<forall>ksp\<in>set (splits self). classified (snd ksp)"
  shows "\<exists>tail. fst (report P self)
              = map (precision_line P) (filter (\<lambda>ksp. scorable (snd ksp)) (splits self)) @ tail
           \<and> (tail = [] \<or> tail = [NoLabelsLine] \<or> (\<exists>x. tail = [OverallLine x]))
           \<and> (tail = [NoLabelsLine] \<longleftrightarrow> (\<forall>ksp\<in>set (splits self). \<not> scorable (snd ksp)))
           \<and> (NoLabelsLine \<in> set (fst (report P self))
                \<longleftrightarrow> (\<forall>ksp\<in>set (splits self). \<not> scorable (snd ksp)))"
proof -
  let ?scored = "filter (\<lambda>ksp. scorable (snd ksp)) (splits self)"
  let ?precs = "map (\<lambda>ksp. precision_of P (snd ksp)) ?scored"
  let ?partials = "map (\<lambda>(k, sp). of_nat (len (target sp)) / of_nat (test_size self)) (splits self)"
  have none: "(?scored = []) = (\<forall>ksp\<in>set (splits self). \<not> scorable (snd ksp))"
    by (simp add: filter_empty_conv)
  show ?thesis
  proof (cases "?scored = []")
    case True
    then have "fst (report P self) = map (precision_line P) ?scored @ [NoLabelsLine]"
      by (simp add: report_unfold[OF assms] Let_def)
    then show ?thesis using True none by (intro exI[of _ "[NoLabelsLine]"]) auto
  next
    case False
    show ?thesis
    proof (cases "np_multiply ?precs ?partials")
      case (Inl e)
      then have "fst (report P self) = map (precision_line P) ?scored @ []"
        using False by (simp add: report_unfold[OF assms] Let_def)
      then show ?thesis using False none by (intro exI[of _ "[]"]) auto
    next
      case (Inr products)
      then have "fst (report P self) = map (precision_line P) ?scored @ [OverallLine (sum_list products)]"
        using False by (simp add: report_unfold[OF assms] Let_def)
      then show ?thesis using False none
        by (intro exI[of _ "[OverallLine (sum_list products)]"]) auto
    qed
  qed
qed

theorem report_skips_unlabelled_partitions_witness:
  "map (\<lambda>ksp. (fst ksp, classified (snd ksp), scorable (snd ksp))) (splits ex_classified)
     = [(''ukkk'', True, False), (''kkkk'', True, True)]
   \<and> (\<exists>tail. fst (report ex_precision ex_classified)
              = map (precision_line ex_precision) (filter (\<lambda>ksp. scorable (snd ksp)) (splits ex_classified)) @ tail
           \<and> tail \<noteq> [NoLabelsLine])"
proof -
  have h1: "\<forall>ksp\<in>set (splits ex_classified). classified (snd ksp)" by code_simp
  have h2: "map (\<lambda>ksp. (fst ksp, classified (snd ksp), scorable (snd ksp))) (splits ex_classified)
     = [(''ukkk'', True, False), (''kkkk'', True, True)]"
    by code_simp
  have h3: "\<not> (\<forall>ksp\<in>set (splits ex_classified). \<not> scorable (snd ksp))" by code_simp
  from report_skips_unlabelled_partitions[OF h1, of ex_precision] h2 h3 show ?thesis by blast
qed

text \<open>
  Claim C6 as stated fails: the partition \<open>ukkk\<close> has a missing label and another partition
  is scored; nothing is printed for \<open>ukkk\<close>, and no notice of missing labels is printed.
\<close>

theorem unlabelled_partition_skipped_silently_counterexample:
  "fst (splits ex_classified ! 0) = ''ukkk''
   \<and> label_vals (snd (splits ex_classified ! 0)) = [NaN]
   \<and> fst (report ex_precision ex_classified) = [PrecisionLine ''kkkk'' (1 / 2) 2, OverallLine (1 / 2)]
   \<and> NoLabelsLine \<notin> set (fst (report ex_precision ex_classified))"
  by code_simp

lemma sum_list_map2_partials:
  "sum_list (map2 (*) (map f xs) (map g xs)) = (\<Sum>x\<leftarrow>xs. f x * g x)"
  by (induction xs) auto

text \<open>
  When every partition can be scored, the printed overall score is the sum of the
  partitions' precisions, each weighted by its row count over the size of the test set.
\<close>

lemma report_overall_all_scored:
  fixes self :: "('a, 'b) transformed ensemble"
  assumes "\<forall>ksp\<in>set (splits self). classified (snd ksp)"
    and "\<forall>ksp\<in>set (splits self). scorable (snd ksp)" and "splits self \<noteq> []"
  shows "report P self =
     (map (precision_line P) (splits self)
        @ [OverallLine (\<Sum>ksp\<leftarrow>splits self. precision_of P (snd ksp)
                           * (of_nat (len (target (snd ksp))) / of_nat (test_size self)))],
      None)"
proof -
  have f: "filter (\<lambda>ksp. scorable (snd ksp)) (splits self) = splits self"
    using assms(2) by (simp add: filter_id_conv)
  have e: "(\<lambda>(k :: string, sp :: ('a, 'b) transformed). of_nat (len (target sp)) / (of_nat (test_size self) :: rat))
         = (\<lambda>ksp. of_nat (len (target (snd ksp))) / of_nat (test_size self))"
    by (rule ext) (simp add: case_prod_beta)
  have m: "np_multiply (map (\<lambda>ksp. precision_of P (snd ksp)) (splits self))
             (map (\<lambda>(k, sp). of_nat (len (target sp)) / of_nat (test_size self)) (splits self))
         = Inr (map2 (*) (map (\<lambda>ksp. precision_of P (snd ksp)) (splits self))
             (map (\<lambda>ksp. of_nat (len (target (snd ksp))) / of_nat (test_size self)) (splits self)))"
    unfolding e by (simp add: np_multiply_def)
  show ?thesis
    unfolding report_unfold[OF assms(1)] Let_def f m
    using assms(3) by (simp add: sum_list_map2_partials)
qed

text \<open>
  Claim C1 fails on the code. With the unlabelled partition \<open>ukkk\<close> (1 of 3 rows) and the
  scored partition \<open>kkkk\<close> (2 of 3 rows, precision 1/2), the weights are taken over both
  partitions and the single precision is stretched over them: the printed overall score is
  1/2, not 2/3 times 1/2. With two scored partitions and one unlabelled partition (the
  test frame of four rows) the product of the two vectors raises and no overall score is
  printed.
\<close>

theorem report_overall_with_unlabelled_partition:
  "test_size ex_classified = 3
   \<and> map (\<lambda>ksp. (fst ksp, len (target (snd ksp)), scorable (snd ksp))) (splits ex_classified)
       = [(''ukkk'', 1, False), (''kkkk'', 2, True)]
   \<and> report ex_precision ex_classified
       = ([PrecisionLine ''kkkk'' (1 / 2) 2, OverallLine (1 / 2)], None)
   \<and> test_size ex_classified4 = 4
   \<and> map (\<lambda>ksp. (fst ksp, len (target (snd ksp)), scorable (snd ksp))) (splits ex_classified4)
       = [(''ukkk'', 1, False), (''kkuk'', 1, True), (''kkkk'', 2, True)]
   \<and> report ex_precision ex_classified4
       = ([PrecisionLine ''kkuk'' 1 1, PrecisionLine ''kkkk'' (1 / 2) 2],
          Some (ValueError ''operands could not be broadcast together''))"
  by code_simp

section \<open>Properties of the export\<close>

lemma columns_put_column: "cname col \<in> set (columns (put_column f col))"
  by (auto simp: put_column_def columns_def image_iff)

lemma setitem_series_Inr:
  assumes "setitem_series f c d sidx svals = Inr f'"
  shows "\<exists>col. f' = put_column f col \<and> cname col = c
           \<and> vals col = (if sidx = index f then svals else reindex_vals sidx (index f) svals)"
  using assms by (auto simp: setitem_series_def split: if_splits)

text \<open>
  Claim C10, as amended. \<^verbatim>\<open>dump_results\<close> takes no copy: when it returns, the frame
  stored at the ensemble's address \<^const>\<open>self_test\<close> has a column \<open>prediction\<close>,
  holding the integer-cast predictions aligned to its index, and a column \<open>confidence\<close>,
  holding the aligned confidences; its index and its other columns are as before, frames at
  other addresses are untouched, and the exported table is the fixed selection of columns
  of the stored frame.
\<close>

theorem dump_results_writes_stored_frame:
  assumes "dump_results h self = Inr (h', res)"
  shows "\<exists>predicted pr ints cf pc cc.
           concat_all (map (\<lambda>(k, sp). target sp) (splits self)) = Inr predicted
           \<and> getitem predicted ''prediction'' = Inr pr \<and> astype_int_all (vals pr) = Inr ints
           \<and> getitem predicted ''confidence'' = Inr cf
           \<and> getitem (h' (self_test self)) ''prediction'' = Inr pc
           \<and> vals pc = (if index predicted = index (h (self_test self)) then ints
                        else reindex_vals (index predicted) (index (h (self_test self))) ints)
           \<and> getitem (h' (self_test self)) ''confidence'' = Inr cc
           \<and> vals cc = (if index predicted = index (h (self_test self)) then vals cf
                        else reindex_vals (index predicted) (index (h (self_test self))) (vals cf))
           \<and> ''prediction'' \<in> set (columns (h' (self_test self)))
           \<and> ''confidence'' \<in> set (columns (h' (self_test self)))
           \<and> index (h' (self_test self)) = index (h (self_test self))
           \<and> (\<forall>n. n \<noteq> ''prediction'' \<and> n \<noteq> ''confidence'' \<longrightarrow>
                  getitem (h' (self_test self)) n = getitem (h (self_test self)) n)
           \<and> (\<forall>r. r \<noteq> self_test self \<longrightarrow> h' r = h r)
           \<and> res = with_columns (h' (self_test self)) export_columns"
proof -
  let ?r = "self_test self"
  from assms obtain predicted where
    p: "concat_all (map (\<lambda>(k, sp). target sp) (splits self)) = Inr predicted"
    by (cases "concat_all (map (\<lambda>(k, sp). target sp) (splits self))")
       (simp_all add: dump_results_def Let_def)
  from assms obtain pr where pr: "getitem predicted ''prediction'' = Inr pr"
    by (cases "getitem predicted ''prediction''") (simp_all add: dump_results_def Let_def p)
  from assms obtain ints where ints: "astype_int_all (vals pr) = Inr ints"
    by (cases "astype_int_all (vals pr)") (simp_all add: dump_results_def Let_def p pr)
  from assms obtain t1 where
    t1: "setitem_series (h ?r) ''prediction'' Int64 (index predicted) ints = Inr t1"
    by (cases "setitem_series (h ?r) ''prediction'' Int64 (index predicted) ints")
       (simp_all add: dump_results_def Let_def p pr ints)
  from assms obtain cf where cf: "getitem predicted ''confidence'' = Inr cf"
    by (cases "getitem predicted ''confidence''") (simp_all add: dump_results_def Let_def p pr ints t1)
  from assms obtain t2 where
    t2: "setitem_series t1 ''confidence'' (dtype cf) (index predicted) (vals cf) = Inr t2"
    by (cases "setitem_series t1 ''confidence'' (dtype cf) (index predicted) (vals cf)")
       (simp_all add: dump_results_def Let_def p pr ints t1 cf)
  from assms have h': "h' = (h(?r := t1))(?r := t2)" and res: "res = with_columns t2 export_columns"
    by (simp_all add: dump_results_def Let_def p pr ints t1 cf t2)
  have at: "h' ?r = t2" by (simp add: h')
  from setitem_series_Inr[OF t1] obtain pc where
    pc: "t1 = put_column (h ?r) pc" "cname pc = ''prediction''"
        "vals pc = (if index predicted = index (h ?r) then ints
                    else reindex_vals (index predicted) (index (h ?r)) ints)"
    by blast
  from setitem_series_Inr[OF t2] obtain cc where
    cc: "t2 = put_column t1 cc" "cname cc = ''confidence''"
        "vals cc = (if index predicted = index t1 then vals cf
                    else reindex_vals (index predicted) (index t1) (vals cf))"
    by blast
  have i1: "index t1 = index (h ?r)" by (simp add: pc(1) index_put_column)
  have i2: "index t2 = index (h ?r)" by (simp add: cc(1) index_put_column i1)
  have gcc: "getitem t2 ''confidence'' = Inr cc"
    using getitem_put_same[of t1 cc] by (simp add: cc(1,2))
  have "getitem t2 ''prediction'' = getitem t1 ''prediction''"
    unfolding cc(1) by (rule getitem_put_other) (simp add: cc(2))
  also have "\<dots> = Inr pc" using getitem_put_same[of "h ?r" pc] by (simp add: pc(1,2))
  finally have gpc: "getitem t2 ''prediction'' = Inr pc" .
  have other: "getitem t2 n = getitem (h ?r) n" if "n \<noteq> ''prediction''" "n \<noteq> ''confidence''" for n
  proof -
    have "getitem t2 n = getitem t1 n"
      unfolding cc(1) by (rule getitem_put_other) (simp add: cc(2) that)
    also have "\<dots> = getitem (h ?r) n"
      unfolding pc(1) by (rule getitem_put_other) (simp add: pc(2) that)
    finally show ?thesis .
  qed
  have inc: "''confidence'' \<in> set (columns t2)"
    using columns_put_column[of cc t1] by (simp add: cc(1,2))
  have inp: "''prediction'' \<in> set (columns t2)"
    using gpc by (auto simp: getitem_def columns_def find_Some_iff split: option.splits)
       (metis nth_mem image_iff)
  have frame: "\<forall>r. r \<noteq> ?r \<longrightarrow> h' r = h r" by (simp add: h')
  from p pr ints cf gpc pc(3) gcc cc(3) inp inc i2 other frame res
  show ?thesis unfolding at i1 by blast
qed

theorem dump_results_writes_stored_frame_witness:
  "dump_results ex_heap ex_classified = Inr (fst ex_dumped, snd ex_dumped)
   \<and> ''prediction'' \<in> set (columns (fst ex_dumped (self_test ex_classified)))
   \<and> ''confidence'' \<in> set (columns (fst ex_dumped (self_test ex_classified)))
   \<and> index (fst ex_dumped (self_test ex_classified)) = index (ex_heap (self_test ex_classified))
   \<and> snd ex_dumped = with_columns (fst ex_dumped (self_test ex_classified)) export_columns"
proof -
  have "\<not> isl (dump_results ex_heap ex_classified)" by code_simp
  then have h1: "dump_results ex_heap ex_classified = Inr (fst ex_dumped, snd ex_dumped)"
    by (simp add: ex_dumped_def)
  from dump_results_writes_stored_frame[OF h1] h1 show ?thesis by blast
qed

text \<open>
  Claim C10 as stated fails: after the export the stored test frame has two columns more
  than before.
\<close>

theorem stored_test_frame_changed_counterexample:
  "\<not> isl (dump_results ex_heap ex_classified)
   \<and> columns (ex_heap (self_test ex_classified))
       = [''articleID'', ''customerID'', ''voucherID'', ''productGroup'', ''sizeCode'', ''rrp'',
          ''returnQuantity'']
   \<and> columns (fst (projr (dump_results ex_heap ex_classified)) (self_test ex_classified))
       = [''articleID'', ''customerID'', ''voucherID'', ''productGroup'', ''sizeCode'', ''rrp'',
          ''returnQuantity'', ''prediction'', ''confidence'']
   \<and> getitem (fst (projr (dump_results ex_heap ex_classified)) (self_test ex_classified)) ''prediction''
       = Inr \<lparr>cname = ''prediction'', dtype = Int64, vals = [Num 1, Num 1, Num 1]\<rparr>"
  by code_simp

end
